theory Spec2Isabelle
  imports Main
begin

section \<open>Data model (models.py)\<close>

text \<open>
  The three tables of \<^verbatim>\<open>models.py\<close>. Python strings are character lists; the
  characters the development looks at (digits, white space) are ASCII or Latin-1.
  The nullable columns the code reads as \<^verbatim>\<open>None\<close> are options. The primary key
  \<^verbatim>\<open>id\<close> of each table is renamed, since \<open>id\<close> is the identity of HOL.
\<close>

record user =
  user_id :: int
  email :: string
  password :: string
  name :: string
  badge :: string
  pin :: string
  category :: "string option"
  company :: "string option"

record blog_post =
  post_id :: int
  post_author_id :: "int option"
  title :: string
  subtitle :: string
  date :: string
  body :: string
  img_url :: string

record comment =
  comment_id :: int
  comment_text :: string
  comment_author_id :: "int option"
  comment_post_id :: "int option"

record database =
  users :: "user list"
  blog_posts :: "blog_post list"
  comments :: "comment list"

section \<open>Requests, responses and the state of one request\<close>

text \<open>
  The state a view function reads and writes: the store, the caller that
  \<^verbatim>\<open>flask_login.current_user\<close> stands for (\<open>None\<close> for the anonymous caller,
  whose \<^verbatim>\<open>is_authenticated\<close> is false) and the queue of flashed messages, each
  with its category.
\<close>

record state =
  db :: database
  current_user :: "user option"
  flashes :: "(string \<times> string) list"

datatype http_method = GET | POST

text \<open>
  \<open>req_url\<close> is \<^verbatim>\<open>request.url\<close>, \<open>req_args\<close> the query string
  (\<^verbatim>\<open>request.args\<close>), \<open>req_form\<close> the posted form fields and \<open>csrf_valid\<close> the
  verdict of Flask-WTF on the form's CSRF token.
\<close>

record request =
  req_method :: http_method
  req_url :: string
  req_args :: "string \<rightharpoonup> string"
  req_form :: "string \<rightharpoonup> string"
  csrf_valid :: bool

datatype json =
  JNull
  | JBool bool
  | JNum int
  | JStr string
  | JArr "json list"
  | JObj "(string \<times> json) list"

text \<open>
  \<^verbatim>\<open>url_for\<close> of the endpoints the code redirects to; \<open>Login\<close> carries the
  \<^verbatim>\<open>next\<close> argument when one is given. \<open>Target\<close> is a URL taken as it is.
\<close>

datatype endpoint = Login "string option" | Get_all_posts | Admin_dashboard

datatype location = Url_for endpoint | Target string

text \<open>
  An exception no handler catches is a value. \<open>Non_string_badge\<close> and
  \<open>Non_string_pin\<close> mark the two places where a JSON value that is not a string
  is handed to the store or to werkzeug, whose reaction is not part of this repository.
\<close>

datatype failure = AttributeError | Non_string_badge | Non_string_pin

datatype response =
  Redirect location
  | Abort nat
  | Render_template string
  | Jsonify json nat
  | Unhandled failure

definition flash :: "string \<Rightarrow> string \<Rightarrow> state \<Rightarrow> state" where
  "flash message cat st = st\<lparr>flashes := flashes st @ [(message, cat)]\<rparr>"

section \<open>Role classifier (main.py, determine\_user\_category)\<close>

definition categories :: "(char \<times> string) list" where
  "categories =
     [(CHR ''1'', ''executive''),
      (CHR ''2'', ''vip''),
      (CHR ''3'', ''director''),
      (CHR ''4'', ''manager''),
      (CHR ''5'', ''newHire''),
      (CHR ''6'', ''campaign''),
      (CHR ''7'', ''regular'')]"

text \<open>The argument is \<open>None\<close> for Python's \<^verbatim>\<open>None\<close>; both it and the empty string are falsy.\<close>

fun determine_user_category :: "string option \<Rightarrow> string" where
  "determine_user_category None = ''unknown''"
| "determine_user_category (Some []) = ''unknown''"
| "determine_user_category (Some (first_digit # rest)) =
     (case map_of categories first_digit of
        None \<Rightarrow> ''unknown''
      | Some c \<Rightarrow> c)"

section \<open>Route guard (main.py, roles\_required)\<close>

text \<open>
  The decorated function: \<open>f\<close> is the wrapped view, \<open>a\<close> its route arguments.
  A category that is \<^verbatim>\<open>None\<close> is in no tuple of role names.
\<close>

definition roles_required ::
  "string list \<Rightarrow> (request \<Rightarrow> 'a \<Rightarrow> state \<Rightarrow> response \<times> state) \<Rightarrow>
   request \<Rightarrow> 'a \<Rightarrow> state \<Rightarrow> response \<times> state" where
  "roles_required required_roles f req a st =
     (case current_user st of
        None \<Rightarrow>
          (Redirect (Url_for (Login (Some (req_url req)))),
           flash ''You must be logged in to view this page.'' ''warning'' st)
      | Some u \<Rightarrow>
          if category u \<notin> set (map Some required_roles) then (Abort 403, st)
          else f req a st)"

section \<open>Form validation (forms.py)\<close>

text \<open>
  The characters \<^verbatim>\<open>str.strip()\<close> removes, among the code points below 256.
\<close>

definition isspace :: "char \<Rightarrow> bool" where
  "isspace c = ((of_char c :: nat) \<in> set [9, 10, 11, 12, 13, 28, 29, 30, 31, 32, 133, 160])"

text \<open>
  \<^verbatim>\<open>DataRequired\<close>: the data is truthy and, stripped, not empty. A field absent
  from the form has no data.
\<close>

definition DataRequired :: "string option \<Rightarrow> bool" where
  "DataRequired d =
     (case d of None \<Rightarrow> False | Some s \<Rightarrow> list_ex (\<lambda>c. \<not> isspace c) s)"

text \<open>\<^verbatim>\<open>Length(min, max)\<close>: data that is missing or empty has length 0.\<close>

definition Length :: "nat \<Rightarrow> nat \<Rightarrow> string option \<Rightarrow> bool" where
  "Length lo hi d =
     (let n = (case d of None \<Rightarrow> 0 | Some s \<Rightarrow> length s) in lo \<le> n \<and> n \<le> hi)"

definition Length_max :: "nat \<Rightarrow> string option \<Rightarrow> bool" where
  "Length_max hi d = ((case d of None \<Rightarrow> 0 | Some s \<Rightarrow> length s) \<le> hi)"

definition is_digit :: "char \<Rightarrow> bool" where
  "is_digit c = (c \<in> set ''0123456789'')"

text \<open>
  \<^verbatim>\<open>Regexp(r'^[0-9]{4,6}$')\<close>, which WTForms applies with \<^verbatim>\<open>re.match\<close> to the
  data (or to the empty string): four to six digits from the start, and then the end
  of the string, where Python's \<^verbatim>\<open>$\<close> also matches just before a newline that
  ends the string.
\<close>

definition Regexp_pin :: "string option \<Rightarrow> bool" where
  "Regexp_pin d =
     (let s = (case d of None \<Rightarrow> [] | Some s \<Rightarrow> s) in
      list_ex (\<lambda>k. k \<le> length s \<and> list_all is_digit (take k s) \<and>
                   (drop k s = [] \<or> drop k s = [CHR 0x0A]))
        [4, 5, 6])"

text \<open>The three validators of the \<^verbatim>\<open>pin\<close> field of \<^verbatim>\<open>RegisterForm\<close>.\<close>

definition pin_validators :: "string option \<Rightarrow> bool" where
  "pin_validators d = (DataRequired d \<and> Length 4 6 d \<and> Regexp_pin d)"

text \<open>\<^verbatim>\<open>validate_on_submit\<close>: the request is a submission and every field validates.\<close>

definition RegisterForm_validate_on_submit :: "request \<Rightarrow> bool" where
  "RegisterForm_validate_on_submit req =
     (req_method req = POST \<and> csrf_valid req \<and>
      DataRequired (req_form req ''email'') \<and>
      DataRequired (req_form req ''password'') \<and>
      DataRequired (req_form req ''name'') \<and>
      DataRequired (req_form req ''badge'') \<and>
      Length_max 150 (req_form req ''company'') \<and>
      pin_validators (req_form req ''pin''))"


text \<open>\<^verbatim>\<open>form.<field>.data\<close> of a field that validated.\<close>

definition field_data :: "request \<Rightarrow> string \<Rightarrow> string" where
  "field_data req k = (case req_form req k of None \<Rightarrow> [] | Some s \<Rightarrow> s)"

section \<open>Password hashing (werkzeug.security)\<close>

text \<open>
  \<^verbatim>\<open>generate_password_hash\<close> and \<^verbatim>\<open>check_password_hash\<close> belong to werkzeug,
  not to this repository: the views below take them as parameters. The generator draws
  a random salt; here the salt is an argument, so that the views stay functions.
\<close>

type_synonym hasher = "string \<Rightarrow> string \<Rightarrow> string"

type_synonym verifier = "string \<Rightarrow> string \<Rightarrow> bool"

section \<open>Registration (main.py, register)\<close>

text \<open>The key the store gives a new row: one more than the largest key in use.\<close>

definition next_user_id :: "user list \<Rightarrow> int" where
  "next_user_id us = fold max (map user_id us) 0 + 1"

definition new_user :: "hasher \<Rightarrow> string \<Rightarrow> string \<Rightarrow> request \<Rightarrow> user list \<Rightarrow> user" where
  "new_user generate_password_hash salt_password salt_pin req us =
     \<lparr>user_id = next_user_id us,
      email = field_data req ''email'',
      password = generate_password_hash salt_password (field_data req ''password''),
      name = field_data req ''name'',
      badge = field_data req ''badge'',
      pin = generate_password_hash salt_pin (field_data req ''pin''),
      category = Some (determine_user_category (Some (field_data req ''badge''))),
      company = (if field_data req ''company'' = [] then None
                 else Some (field_data req ''company''))\<rparr>"

definition register ::
  "hasher \<Rightarrow> string \<Rightarrow> string \<Rightarrow> request \<Rightarrow> state \<Rightarrow> response \<times> state" where
  "register generate_password_hash salt_password salt_pin req st =
     (if RegisterForm_validate_on_submit req then
        (case find (\<lambda>u. email u = field_data req ''email'') (users (db st)) of
           Some existing_user_by_email \<Rightarrow>
             (Redirect (Url_for (Login None)),
              flash (''You'' @ [CHR 0x27] @ ''ve already signed up with that email, log in instead!'')
                ''message'' st)
         | None \<Rightarrow>
             (case find (\<lambda>u. badge u = field_data req ''badge'') (users (db st)) of
                Some existing_user_by_badge \<Rightarrow>
                  (Render_template ''register.html'',
                   flash ''This badge number is already registered. Please use a different badge number.''
                     ''message'' st)
              | None \<Rightarrow>
                  (Redirect (Url_for (Login None)),
                   flash ''Registration successful! Please log in to continue.'' ''success''
                     (st\<lparr>db := (db st)\<lparr>users := users (db st) @
                        [new_user generate_password_hash salt_password salt_pin req
                           (users (db st))]\<rparr>\<rparr>))))
      else (Render_template ''register.html'', st))"

section \<open>Login (main.py, login)\<close>


section \<open>Badge and PIN API (main.py, authenticate\_badge\_pin)\<close>

text \<open>Python's truth value of a decoded JSON value.\<close>

fun truthy :: "json \<Rightarrow> bool" where
  "truthy JNull = False"
| "truthy (JBool b) = b"
| "truthy (JNum n) = (n \<noteq> 0)"
| "truthy (JStr s) = (s \<noteq> [])"
| "truthy (JArr xs) = (xs \<noteq> [])"
| "truthy (JObj kvs) = (kvs \<noteq> [])"

text \<open>
  \<^verbatim>\<open>dict.get\<close> on a decoded object: the last of several equal keys is the one the
  decoder keeps, and a missing key gives \<^verbatim>\<open>None\<close>.
\<close>

definition dict_get :: "(string \<times> json) list \<Rightarrow> string \<Rightarrow> json" where
  "dict_get kvs k = (case map_of (rev kvs) k of None \<Rightarrow> JNull | Some v \<Rightarrow> v)"

definition error_body :: "string \<Rightarrow> json" where
  "error_body message = JObj [(''status'', JStr ''error''), (''message'', JStr message)]"

definition success_body :: "user \<Rightarrow> json" where
  "success_body u =
     JObj [(''status'', JStr ''success''),
           (''message'', JStr ''Authentication successful''),
           (''user_id'', JNum (user_id u)),
           (''name'', JStr (name u)),
           (''email'', JStr (email u)),
           (''category'', (case category u of None \<Rightarrow> JNull | Some c \<Rightarrow> JStr c))]"

text \<open>
  \<open>data\<close> is what \<^verbatim>\<open>request.get_json()\<close> returned, \<open>JNull\<close> for \<^verbatim>\<open>None\<close>.
  Only a decoded object has a \<^verbatim>\<open>get\<close> method.
\<close>

definition authenticate_badge_pin :: "verifier \<Rightarrow> database \<Rightarrow> json \<Rightarrow> response" where
  "authenticate_badge_pin check_password_hash d data =
     (if \<not> truthy data then Jsonify (error_body ''Request must be JSON'') 400
      else
        (case data of
           JObj kvs \<Rightarrow>
             (let badge_v = dict_get kvs ''badge''; pin_v = dict_get kvs ''pin'' in
              if \<not> truthy badge_v \<or> \<not> truthy pin_v then
                Jsonify (error_body ''Missing badge or pin'') 400
              else
                (case badge_v of
                   JStr b \<Rightarrow>
                     (case find (\<lambda>u. badge u = b) (users d) of
                        None \<Rightarrow> Jsonify (error_body ''Badge not found'') 404
                      | Some u \<Rightarrow>
                          (case pin_v of
                             JStr p \<Rightarrow>
                               if check_password_hash (pin u) p then
                                 Jsonify (success_body u) 200
                               else Jsonify (error_body ''Invalid PIN'') 401
                           | _ \<Rightarrow> Unhandled Non_string_pin))
                 | _ \<Rightarrow> Unhandled Non_string_badge))
         | _ \<Rightarrow> Unhandled AttributeError))"

section \<open>Deleting a user (main.py, delete\_user; models.py, the cascades)\<close>

text \<open>
  \<^verbatim>\<open>db.session.delete(user)\<close> followed by \<^verbatim>\<open>commit\<close>. The relationships
  \<^verbatim>\<open>User.posts\<close> and \<^verbatim>\<open>User.comments\<close> are declared with
  \<^verbatim>\<open>cascade="all, delete-orphan"\<close>: the posts and the comments of the user are
  deleted with it. \<^verbatim>\<open>BlogPost.comments\<close> has no cascade: a remaining comment on a
  deleted post loses its \<^verbatim>\<open>post_id\<close>.
\<close>

definition session_delete_user :: "user \<Rightarrow> database \<Rightarrow> database" where
  "session_delete_user u d =
     (let deleted_posts =
            map post_id (filter (\<lambda>p. post_author_id p = Some (user_id u)) (blog_posts d))
      in \<lparr>users = filter (\<lambda>x. user_id x \<noteq> user_id u) (users d),
          blog_posts = filter (\<lambda>p. post_author_id p \<noteq> Some (user_id u)) (blog_posts d),
          comments =
            map (\<lambda>c. if comment_post_id c \<in> set (map Some deleted_posts)
                      then c\<lparr>comment_post_id := None\<rparr> else c)
              (filter (\<lambda>c. comment_author_id c \<noteq> Some (user_id u)) (comments d))\<rparr>)"

text \<open>
  The view itself. It reads \<^verbatim>\<open>current_user.id\<close>, which the anonymous caller does
  not have; behind the guard that branch is never reached.
\<close>

definition delete_user_view :: "request \<Rightarrow> int \<Rightarrow> state \<Rightarrow> response \<times> state" where
  "delete_user_view req uid st =
     (case current_user st of
        None \<Rightarrow> (Unhandled AttributeError, st)
      | Some cu \<Rightarrow>
          if uid = user_id cu then
            (Redirect (Url_for Admin_dashboard),
             flash ''You cannot delete your own account from the dashboard.'' ''danger'' st)
          else
            (case find (\<lambda>u. user_id u = uid) (users (db st)) of
               None \<Rightarrow> (Abort 404, st)
             | Some user_to_delete \<Rightarrow>
                 (Redirect (Url_for Admin_dashboard),
                  flash (''User '' @ [CHR 0x27] @ name user_to_delete @ [CHR 0x27] @
                         '' has been deleted successfully.'') ''success''
                    (st\<lparr>db := session_delete_user user_to_delete (db st)\<rparr>))))"

definition delete_user :: "request \<Rightarrow> int \<Rightarrow> state \<Rightarrow> response \<times> state" where
  "delete_user = roles_required [''executive''] delete_user_view"

section \<open>The role classifier\<close>

text \<open>
  C1. The classifier answers \<open>unknown\<close> for a missing and for an empty badge, and
  otherwise the role its table gives the first character, \<open>unknown\<close> when the table
  has none: \<open>1\<close> executive, \<open>2\<close> vip, \<open>3\<close> director, \<open>4\<close> manager, \<open>5\<close> newHire,
  \<open>6\<close> campaign, \<open>7\<close> regular. The characters after the first never matter. The
  classifier is a total function of its argument alone.
\<close>

theorem C1_determine_user_category:
  "determine_user_category None = ''unknown'' \<and>
   determine_user_category (Some []) = ''unknown'' \<and>
   determine_user_category (Some (c # cs)) =
     (if c = CHR ''1'' then ''executive''
      else if c = CHR ''2'' then ''vip''
      else if c = CHR ''3'' then ''director''
      else if c = CHR ''4'' then ''manager''
      else if c = CHR ''5'' then ''newHire''
      else if c = CHR ''6'' then ''campaign''
      else if c = CHR ''7'' then ''regular''
      else ''unknown'') \<and>
   determine_user_category (Some (c # cs)) = determine_user_category (Some (c # cs'))"
  by (simp add: categories_def)

theorem C1_determine_user_category_witness:
  "determine_user_category (Some ''3999'') = ''director'' \<and>
   determine_user_category (Some ''3999'') = determine_user_category (Some ''3abc'')"
  using C1_determine_user_category [of "CHR ''3''" "''999''" "''abc''"] by simp

section \<open>The route guard\<close>

lemma roles_required_None:
  "current_user st = None \<Longrightarrow>
   roles_required rs f req a st =
     (Redirect (Url_for (Login (Some (req_url req)))),
      st\<lparr>flashes := flashes st @ [(''You must be logged in to view this page.'', ''warning'')]\<rparr>)"
  by (simp add: roles_required_def flash_def)

lemma roles_required_Some:
  "current_user st = Some u \<Longrightarrow>
   roles_required rs f req a st =
     (if category u \<in> Some ` set rs then f req a st else (Abort 403, st))"
  by (simp add: roles_required_def)

text \<open>
  C2, as the code has it. For the anonymous caller the guard answers with a redirect to
  the login page that carries the requested URL, leaves the store and the caller as they
  were and appends one message, \<open>You must be logged in to view this page.\<close>, to the
  flashed messages. For a caller whose category is not among the required roles it
  answers 403 and changes nothing. In both cases the answer does not depend on the
  wrapped view, which is not run. Otherwise the answer is that of the wrapped view.
\<close>

theorem C2_roles_required:
  "(current_user st = None \<longrightarrow>
      fst (roles_required rs f req a st) = Redirect (Url_for (Login (Some (req_url req)))) \<and>
      db (snd (roles_required rs f req a st)) = db st \<and>
      current_user (snd (roles_required rs f req a st)) = None \<and>
      flashes (snd (roles_required rs f req a st)) =
        flashes st @ [(''You must be logged in to view this page.'', ''warning'')] \<and>
      roles_required rs f req a st = roles_required rs g req a st) \<and>
   (current_user st = Some u \<and> category u \<notin> Some ` set rs \<longrightarrow>
      roles_required rs f req a st = (Abort 403, st) \<and>
      roles_required rs f req a st = roles_required rs g req a st) \<and>
   (current_user st = Some u \<and> category u \<in> Some ` set rs \<longrightarrow>
      roles_required rs f req a st = f req a st)"
  by (simp add: roles_required_None roles_required_Some)

theorem C2_roles_required_witness:
  "roles_required [''executive'', ''director''] delete_user_view
     \<lparr>req_method = POST, req_url = ''/new-post'', req_args = Map.empty,
      req_form = Map.empty, csrf_valid = True\<rparr> 2
     \<lparr>db = \<lparr>users = [], blog_posts = [], comments = []\<rparr>,
      current_user = Some \<lparr>user_id = 5, email = ''r@x.org'', password = ''h'', name = ''Reg'',
        badge = ''7001'', pin = ''q'', category = Some ''regular'', company = None\<rparr>,
      flashes = []\<rparr> =
   (Abort 403,
     \<lparr>db = \<lparr>users = [], blog_posts = [], comments = []\<rparr>,
      current_user = Some \<lparr>user_id = 5, email = ''r@x.org'', password = ''h'', name = ''Reg'',
        badge = ''7001'', pin = ''q'', category = Some ''regular'', company = None\<rparr>,
      flashes = []\<rparr>) \<and>
   fst (roles_required [''executive'', ''director''] delete_user_view
     \<lparr>req_method = POST, req_url = ''/new-post'', req_args = Map.empty,
      req_form = Map.empty, csrf_valid = True\<rparr> 2
     \<lparr>db = \<lparr>users = [], blog_posts = [], comments = []\<rparr>, current_user = None, flashes = []\<rparr>) =
   Redirect (Url_for (Login (Some ''/new-post'')))"
  using C2_roles_required [of
     "\<lparr>db = \<lparr>users = [], blog_posts = [], comments = []\<rparr>,
      current_user = Some \<lparr>user_id = 5, email = ''r@x.org'', password = ''h'', name = ''Reg'',
        badge = ''7001'', pin = ''q'', category = Some ''regular'', company = None\<rparr>,
      flashes = []\<rparr>" "[''executive'', ''director'']" delete_user_view
     "\<lparr>req_method = POST, req_url = ''/new-post'', req_args = Map.empty,
      req_form = Map.empty, csrf_valid = True\<rparr>" 2 delete_user_view
     "\<lparr>user_id = 5, email = ''r@x.org'', password = ''h'', name = ''Reg'',
        badge = ''7001'', pin = ''q'', category = Some ''regular'', company = None\<rparr>"]
   C2_roles_required [of
     "\<lparr>db = \<lparr>users = [], blog_posts = [], comments = []\<rparr>, current_user = None, flashes = []\<rparr>"
     "[''executive'', ''director'']" delete_user_view
     "\<lparr>req_method = POST, req_url = ''/new-post'', req_args = Map.empty,
      req_form = Map.empty, csrf_valid = True\<rparr>" 2 delete_user_view]
  by simp

text \<open>
  An anonymous caller on a guarded route: the answer is the redirect, and the state after
  the guard is not the state before it.
\<close>

theorem C2_counterexample:
  "fst (roles_required [''executive''] delete_user_view
          \<lparr>req_method = POST, req_url = ''/admin/delete_user/2'', req_args = Map.empty,
           req_form = Map.empty, csrf_valid = True\<rparr> 2
          \<lparr>db = \<lparr>users = [], blog_posts = [], comments = []\<rparr>, current_user = None, flashes = []\<rparr>)
     = Redirect (Url_for (Login (Some ''/admin/delete_user/2''))) \<and>
   snd (roles_required [''executive''] delete_user_view
          \<lparr>req_method = POST, req_url = ''/admin/delete_user/2'', req_args = Map.empty,
           req_form = Map.empty, csrf_valid = True\<rparr> 2
          \<lparr>db = \<lparr>users = [], blog_posts = [], comments = []\<rparr>, current_user = None, flashes = []\<rparr>)
     \<noteq> \<lparr>db = \<lparr>users = [], blog_posts = [], comments = []\<rparr>, current_user = None, flashes = []\<rparr>"
  by (simp add: roles_required_def flash_def)

section \<open>The badge and PIN API\<close>

lemma authenticate_falsy:
  "\<not> truthy data \<Longrightarrow>
   authenticate_badge_pin chk d data = Jsonify (error_body ''Request must be JSON'') 400"
  by (simp add: authenticate_badge_pin_def)

lemma authenticate_missing:
  "kvs \<noteq> [] \<Longrightarrow> \<not> truthy (dict_get kvs ''badge'') \<or> \<not> truthy (dict_get kvs ''pin'') \<Longrightarrow>
   authenticate_badge_pin chk d (JObj kvs) = Jsonify (error_body ''Missing badge or pin'') 400"
  by (auto simp add: authenticate_badge_pin_def Let_def)

lemma dict_get_truthy_nonempty: "truthy (dict_get kvs k) \<Longrightarrow> kvs \<noteq> []"
  by (auto simp add: dict_get_def)

lemma authenticate_not_found:
  "dict_get kvs ''badge'' = JStr b \<Longrightarrow> b \<noteq> [] \<Longrightarrow> truthy (dict_get kvs ''pin'') \<Longrightarrow>
   find (\<lambda>u. badge u = b) (users d) = None \<Longrightarrow>
   authenticate_badge_pin chk d (JObj kvs) = Jsonify (error_body ''Badge not found'') 404"
  using dict_get_truthy_nonempty [of kvs "''pin''"]
  by (simp add: authenticate_badge_pin_def Let_def)

lemma authenticate_found:
  "dict_get kvs ''badge'' = JStr b \<Longrightarrow> b \<noteq> [] \<Longrightarrow> dict_get kvs ''pin'' = JStr p \<Longrightarrow> p \<noteq> [] \<Longrightarrow>
   find (\<lambda>u. badge u = b) (users d) = Some u \<Longrightarrow>
   authenticate_badge_pin chk d (JObj kvs) =
     (if chk (pin u) p then Jsonify (success_body u) 200
      else Jsonify (error_body ''Invalid PIN'') 401)"
  using dict_get_truthy_nonempty [of kvs "''pin''"]
  by (simp add: authenticate_badge_pin_def Let_def)

text \<open>
  C3, as the code has it. A body that \<^verbatim>\<open>get_json\<close> gives as \<^verbatim>\<open>None\<close> or as any
  other falsy value, the empty object among them, is answered 400 with the message
  \<open>Request must be JSON\<close>. A non-empty object in which the badge or the pin is missing or
  falsy is answered 400 with \<open>Missing badge or pin\<close>, whatever the store holds. With a
  non-empty string as badge and a truthy pin, a badge no user has is answered 404 with
  \<open>Badge not found\<close>. With non-empty strings as badge and pin and a user of that badge,
  a pin the stored digest rejects is answered 401 with \<open>Invalid PIN\<close>, and a pin it
  accepts 200 with exactly the fields status, message, user\_id, name, email and category.
\<close>

theorem C3_authenticate_badge_pin:
  "(\<not> truthy data \<longrightarrow>
      authenticate_badge_pin chk d data =
        Jsonify (JObj [(''status'', JStr ''error''), (''message'', JStr ''Request must be JSON'')]) 400) \<and>
   authenticate_badge_pin chk d (JObj []) =
     Jsonify (JObj [(''status'', JStr ''error''), (''message'', JStr ''Request must be JSON'')]) 400 \<and>
   (kvs \<noteq> [] \<and> (\<not> truthy (dict_get kvs ''badge'') \<or> \<not> truthy (dict_get kvs ''pin'')) \<longrightarrow>
      authenticate_badge_pin chk d (JObj kvs) =
        Jsonify (JObj [(''status'', JStr ''error''), (''message'', JStr ''Missing badge or pin'')]) 400 \<and>
      authenticate_badge_pin chk d (JObj kvs) = authenticate_badge_pin chk' d' (JObj kvs)) \<and>
   (dict_get kvs ''badge'' = JStr b \<and> b \<noteq> [] \<and> truthy (dict_get kvs ''pin'') \<and>
    find (\<lambda>u. badge u = b) (users d) = None \<longrightarrow>
      authenticate_badge_pin chk d (JObj kvs) =
        Jsonify (JObj [(''status'', JStr ''error''), (''message'', JStr ''Badge not found'')]) 404) \<and>
   (dict_get kvs ''badge'' = JStr b \<and> b \<noteq> [] \<and> dict_get kvs ''pin'' = JStr p \<and> p \<noteq> [] \<and>
    find (\<lambda>u. badge u = b) (users d) = Some u \<and> \<not> chk (pin u) p \<longrightarrow>
      authenticate_badge_pin chk d (JObj kvs) =
        Jsonify (JObj [(''status'', JStr ''error''), (''message'', JStr ''Invalid PIN'')]) 401) \<and>
   (dict_get kvs ''badge'' = JStr b \<and> b \<noteq> [] \<and> dict_get kvs ''pin'' = JStr p \<and> p \<noteq> [] \<and>
    find (\<lambda>u. badge u = b) (users d) = Some u \<and> chk (pin u) p \<longrightarrow>
      authenticate_badge_pin chk d (JObj kvs) =
        Jsonify (JObj [(''status'', JStr ''success''),
                       (''message'', JStr ''Authentication successful''),
                       (''user_id'', JNum (user_id u)),
                       (''name'', JStr (name u)),
                       (''email'', JStr (email u)),
                       (''category'', (case category u of None \<Rightarrow> JNull | Some c \<Rightarrow> JStr c))]) 200)"
proof -
  have falsy: "\<not> truthy data \<longrightarrow>
      authenticate_badge_pin chk d data =
        Jsonify (JObj [(''status'', JStr ''error''), (''message'', JStr ''Request must be JSON'')]) 400"
    by (simp add: authenticate_falsy error_body_def)
  have empty: "authenticate_badge_pin chk d (JObj []) =
     Jsonify (JObj [(''status'', JStr ''error''), (''message'', JStr ''Request must be JSON'')]) 400"
    by (simp add: authenticate_falsy error_body_def)
  have missing: "kvs \<noteq> [] \<and> (\<not> truthy (dict_get kvs ''badge'') \<or> \<not> truthy (dict_get kvs ''pin'')) \<longrightarrow>
      authenticate_badge_pin chk d (JObj kvs) =
        Jsonify (JObj [(''status'', JStr ''error''), (''message'', JStr ''Missing badge or pin'')]) 400 \<and>
      authenticate_badge_pin chk d (JObj kvs) = authenticate_badge_pin chk' d' (JObj kvs)"
    using authenticate_missing [of kvs chk d] authenticate_missing [of kvs chk' d']
    by (simp add: error_body_def)
  have not_found: "dict_get kvs ''badge'' = JStr b \<and> b \<noteq> [] \<and> truthy (dict_get kvs ''pin'') \<and>
    find (\<lambda>u. badge u = b) (users d) = None \<longrightarrow>
      authenticate_badge_pin chk d (JObj kvs) =
        Jsonify (JObj [(''status'', JStr ''error''), (''message'', JStr ''Badge not found'')]) 404"
    using authenticate_not_found [of kvs b d chk] by (simp add: error_body_def)
  have mismatch: "dict_get kvs ''badge'' = JStr b \<and> b \<noteq> [] \<and> dict_get kvs ''pin'' = JStr p \<and> p \<noteq> [] \<and>
    find (\<lambda>u. badge u = b) (users d) = Some u \<and> \<not> chk (pin u) p \<longrightarrow>
      authenticate_badge_pin chk d (JObj kvs) =
        Jsonify (JObj [(''status'', JStr ''error''), (''message'', JStr ''Invalid PIN'')]) 401"
    using authenticate_found [of kvs b p d u chk] by (simp add: error_body_def)
  have match: "dict_get kvs ''badge'' = JStr b \<and> b \<noteq> [] \<and> dict_get kvs ''pin'' = JStr p \<and> p \<noteq> [] \<and>
    find (\<lambda>u. badge u = b) (users d) = Some u \<and> chk (pin u) p \<longrightarrow>
      authenticate_badge_pin chk d (JObj kvs) =
        Jsonify (JObj [(''status'', JStr ''success''),
                       (''message'', JStr ''Authentication successful''),
                       (''user_id'', JNum (user_id u)),
                       (''name'', JStr (name u)),
                       (''email'', JStr (email u)),
                       (''category'', (case category u of None \<Rightarrow> JNull | Some c \<Rightarrow> JStr c))]) 200"
    using authenticate_found [of kvs b p d u chk] by (simp add: success_body_def)
  from falsy empty missing not_found mismatch match show ?thesis by blast
qed

text \<open>
  The empty object has no badge, and its answer is not the one with the message
  \<open>Missing badge or pin\<close>.
\<close>

theorem C3_counterexample:
  "dict_get [] ''badge'' = JNull \<and>
   authenticate_badge_pin (=) \<lparr>users = [], blog_posts = [], comments = []\<rparr> (JObj []) \<noteq>
     Jsonify (JObj [(''status'', JStr ''error''), (''message'', JStr ''Missing badge or pin'')]) 400"
  by (simp add: authenticate_badge_pin_def dict_get_def error_body_def)

theorem C3_authenticate_badge_pin_witness:
  "authenticate_badge_pin (=) \<lparr>users = [\<lparr>user_id = 7, email = ''d@x.org'', password = ''pw'',
       name = ''Dee'', badge = ''3999'', pin = ''4321'', category = Some ''director'',
       company = None\<rparr>], blog_posts = [], comments = []\<rparr>
     (JObj [(''badge'', JStr ''3999''), (''pin'', JStr ''4321'')]) =
     Jsonify (JObj [(''status'', JStr ''success''),
                       (''message'', JStr ''Authentication successful''),
                       (''user_id'', JNum 7),
                       (''name'', JStr ''Dee''),
                       (''email'', JStr ''d@x.org''),
                       (''category'', JStr ''director'')]) 200 \<and>
   authenticate_badge_pin (=) \<lparr>users = [\<lparr>user_id = 7, email = ''d@x.org'', password = ''pw'',
       name = ''Dee'', badge = ''3999'', pin = ''4321'', category = Some ''director'',
       company = None\<rparr>], blog_posts = [], comments = []\<rparr>
     (JObj [(''badge'', JStr ''3999''), (''pin'', JStr ''0000'')]) =
     Jsonify (JObj [(''status'', JStr ''error''), (''message'', JStr ''Invalid PIN'')]) 401"
  using C3_authenticate_badge_pin [of JNull "(=)" "\<lparr>users = [\<lparr>user_id = 7, email = ''d@x.org'', password = ''pw'',
       name = ''Dee'', badge = ''3999'', pin = ''4321'', category = Some ''director'',
       company = None\<rparr>], blog_posts = [], comments = []\<rparr>" "[(''badge'', JStr ''3999''), (''pin'', JStr ''4321'')]"
       "(=)" "\<lparr>users = [], blog_posts = [], comments = []\<rparr>" "''3999''" "''4321''" 
       "\<lparr>user_id = 7, email = ''d@x.org'', password = ''pw'',
       name = ''Dee'', badge = ''3999'', pin = ''4321'', category = Some ''director'',
       company = None\<rparr>"]
    C3_authenticate_badge_pin [of JNull "(=)" "\<lparr>users = [\<lparr>user_id = 7, email = ''d@x.org'', password = ''pw'',
       name = ''Dee'', badge = ''3999'', pin = ''4321'', category = Some ''director'',
       company = None\<rparr>], blog_posts = [], comments = []\<rparr>" "[(''badge'', JStr ''3999''), (''pin'', JStr ''0000'')]"
       "(=)" "\<lparr>users = [], blog_posts = [], comments = []\<rparr>" "''3999''" "''0000''" 
       "\<lparr>user_id = 7, email = ''d@x.org'', password = ''pw'',
       name = ''Dee'', badge = ''3999'', pin = ''4321'', category = Some ''director'',
       company = None\<rparr>"]
  by (simp add: dict_get_def)

section \<open>Registration\<close>


lemma register_invalid:
  "\<not> RegisterForm_validate_on_submit req \<Longrightarrow>
   register g sp sn req st = (Render_template ''register.html'', st)"
  by (simp add: register_def)

lemma register_email_taken:
  "RegisterForm_validate_on_submit req \<Longrightarrow>
   find (\<lambda>u. email u = field_data req ''email'') (users (db st)) = Some e \<Longrightarrow>
   register g sp sn req st =
     (Redirect (Url_for (Login None)),
      st\<lparr>flashes := flashes st @
        [(''You'' @ [CHR 0x27] @ ''ve already signed up with that email, log in instead!'', ''message'')]\<rparr>)"
  by (simp add: register_def flash_def)

lemma register_badge_taken:
  "RegisterForm_validate_on_submit req \<Longrightarrow>
   find (\<lambda>u. email u = field_data req ''email'') (users (db st)) = None \<Longrightarrow>
   find (\<lambda>u. badge u = field_data req ''badge'') (users (db st)) = Some b \<Longrightarrow>
   register g sp sn req st =
     (Render_template ''register.html'',
      st\<lparr>flashes := flashes st @
        [(''This badge number is already registered. Please use a different badge number.'', ''message'')]\<rparr>)"
  by (simp add: register_def flash_def)

lemma register_fresh:
  "RegisterForm_validate_on_submit req \<Longrightarrow>
   find (\<lambda>u. email u = field_data req ''email'') (users (db st)) = None \<Longrightarrow>
   find (\<lambda>u. badge u = field_data req ''badge'') (users (db st)) = None \<Longrightarrow>
   register g sp sn req st =
     (Redirect (Url_for (Login None)),
      st\<lparr>db := (db st)\<lparr>users := users (db st) @ [new_user g sp sn req (users (db st))]\<rparr>,
         flashes := flashes st @
           [(''Registration successful! Please log in to continue.'', ''success'')]\<rparr>)"
  by (simp add: register_def flash_def)

lemma find_Some_if_ex: "\<exists>x\<in>set xs. P x \<Longrightarrow> \<exists>y. find P xs = Some y"
  by (cases "find P xs") (auto simp add: find_None_iff)

lemma find_None_if_not_ex: "\<not> (\<exists>x\<in>set xs. P x) \<Longrightarrow> find P xs = None"
  by (simp add: find_None_iff)

lemma register_db_unchanged:
  assumes "(\<exists>u\<in>set (users (db st)). email u = field_data req ''email'') \<or>
           (\<exists>u\<in>set (users (db st)). badge u = field_data req ''badge'')"
  shows "db (snd (register g sp sn req st)) = db st"
proof (cases "RegisterForm_validate_on_submit req")
  case False
  show ?thesis unfolding register_invalid [OF False] by simp
next
  case valid: True
  show ?thesis
  proof (cases "find (\<lambda>u. email u = field_data req ''email'') (users (db st))")
    case (Some e)
    show ?thesis unfolding register_email_taken [OF valid Some] by simp
  next
    case None
    have "\<not> (\<exists>u\<in>set (users (db st)). email u = field_data req ''email'')"
      using None unfolding find_None_iff by blast
    with assms have "\<exists>u\<in>set (users (db st)). badge u = field_data req ''badge''" by blast
    from find_Some_if_ex [OF this]
    obtain b where b: "find (\<lambda>u. badge u = field_data req ''badge'') (users (db st)) = Some b" ..
    show ?thesis unfolding register_badge_taken [OF valid None b] by simp
  qed
qed

text \<open>
  C4. A registration whose email or whose badge some user already has leaves the store as
  it was. When the form validates, a taken email is answered with a flashed message and a
  redirect to the login page, and a taken badge (the email being free) with a flashed
  message and the registration page again. When the form validates and neither is taken,
  exactly one user is appended to the store, with every field set: the key, the email, the
  name, the badge, the two digests, the category of the badge and the company.
\<close>

theorem C4_register:
  "((\<exists>u\<in>set (users (db st)). email u = field_data req ''email'') \<or>
    (\<exists>u\<in>set (users (db st)). badge u = field_data req ''badge'') \<longrightarrow>
      db (snd (register g sp sn req st)) = db st) \<and>
   (RegisterForm_validate_on_submit req \<and>
    (\<exists>u\<in>set (users (db st)). email u = field_data req ''email'') \<longrightarrow>
      register g sp sn req st =
        (Redirect (Url_for (Login None)),
         st\<lparr>flashes := flashes st @
           [(''You'' @ [CHR 0x27] @ ''ve already signed up with that email, log in instead!'',
             ''message'')]\<rparr>)) \<and>
   (RegisterForm_validate_on_submit req \<and>
    \<not> (\<exists>u\<in>set (users (db st)). email u = field_data req ''email'') \<and>
    (\<exists>u\<in>set (users (db st)). badge u = field_data req ''badge'') \<longrightarrow>
      register g sp sn req st =
        (Render_template ''register.html'',
         st\<lparr>flashes := flashes st @
           [(''This badge number is already registered. Please use a different badge number.'',
             ''message'')]\<rparr>)) \<and>
   (RegisterForm_validate_on_submit req \<and>
    \<not> (\<exists>u\<in>set (users (db st)). email u = field_data req ''email'') \<and>
    \<not> (\<exists>u\<in>set (users (db st)). badge u = field_data req ''badge'') \<longrightarrow>
      fst (register g sp sn req st) = Redirect (Url_for (Login None)) \<and>
      users (db (snd (register g sp sn req st))) = users (db st) @
        [\<lparr>user_id = next_user_id (users (db st)),
          email = field_data req ''email'',
          password = g sp (field_data req ''password''),
          name = field_data req ''name'',
          badge = field_data req ''badge'',
          pin = g sn (field_data req ''pin''),
          category = Some (determine_user_category (Some (field_data req ''badge''))),
          company = (if field_data req ''company'' = [] then None
                     else Some (field_data req ''company''))\<rparr>] \<and>
      blog_posts (db (snd (register g sp sn req st))) = blog_posts (db st) \<and>
      comments (db (snd (register g sp sn req st))) = comments (db st) \<and>
      flashes (snd (register g sp sn req st)) = flashes st @
        [(''Registration successful! Please log in to continue.'', ''success'')])"
proof -
  let ?E = "\<exists>u\<in>set (users (db st)). email u = field_data req ''email''"
  let ?B = "\<exists>u\<in>set (users (db st)). badge u = field_data req ''badge''"
  let ?V = "RegisterForm_validate_on_submit req"
  have unchanged: "?E \<or> ?B \<longrightarrow> db (snd (register g sp sn req st)) = db st"
    by (rule impI) (rule register_db_unchanged)
  have email_taken: "?V \<and> ?E \<longrightarrow>
      register g sp sn req st =
        (Redirect (Url_for (Login None)),
         st\<lparr>flashes := flashes st @
           [(''You'' @ [CHR 0x27] @ ''ve already signed up with that email, log in instead!'',
             ''message'')]\<rparr>)"
  proof (intro impI, elim conjE)
    assume v: ?V and e: ?E
    from find_Some_if_ex [OF e]
    obtain x where "find (\<lambda>u. email u = field_data req ''email'') (users (db st)) = Some x" ..
    with v show "register g sp sn req st =
        (Redirect (Url_for (Login None)),
         st\<lparr>flashes := flashes st @
           [(''You'' @ [CHR 0x27] @ ''ve already signed up with that email, log in instead!'',
             ''message'')]\<rparr>)"
      by (rule register_email_taken)
  qed
  have badge_taken: "?V \<and> \<not> ?E \<and> ?B \<longrightarrow>
      register g sp sn req st =
        (Render_template ''register.html'',
         st\<lparr>flashes := flashes st @
           [(''This badge number is already registered. Please use a different badge number.'',
             ''message'')]\<rparr>)"
  proof (intro impI, elim conjE)
    assume v: ?V and e: "\<not> ?E" and b: ?B
    from e have none: "find (\<lambda>u. email u = field_data req ''email'') (users (db st)) = None"
      by (rule find_None_if_not_ex)
    from find_Some_if_ex [OF b]
    obtain x where "find (\<lambda>u. badge u = field_data req ''badge'') (users (db st)) = Some x" ..
    with v none show "register g sp sn req st =
        (Render_template ''register.html'',
         st\<lparr>flashes := flashes st @
           [(''This badge number is already registered. Please use a different badge number.'',
             ''message'')]\<rparr>)"
      by (rule register_badge_taken)
  qed
  have fresh: "?V \<and> \<not> ?E \<and> \<not> ?B \<longrightarrow>
      fst (register g sp sn req st) = Redirect (Url_for (Login None)) \<and>
      users (db (snd (register g sp sn req st))) = users (db st) @
        [\<lparr>user_id = next_user_id (users (db st)),
          email = field_data req ''email'',
          password = g sp (field_data req ''password''),
          name = field_data req ''name'',
          badge = field_data req ''badge'',
          pin = g sn (field_data req ''pin''),
          category = Some (determine_user_category (Some (field_data req ''badge''))),
          company = (if field_data req ''company'' = [] then None
                     else Some (field_data req ''company''))\<rparr>] \<and>
      blog_posts (db (snd (register g sp sn req st))) = blog_posts (db st) \<and>
      comments (db (snd (register g sp sn req st))) = comments (db st) \<and>
      flashes (snd (register g sp sn req st)) = flashes st @
        [(''Registration successful! Please log in to continue.'', ''success'')]"
  proof (intro impI, elim conjE)
    assume v: ?V and e: "\<not> ?E" and b: "\<not> ?B"
    from e have ne: "find (\<lambda>u. email u = field_data req ''email'') (users (db st)) = None"
      by (rule find_None_if_not_ex)
    from b have nb: "find (\<lambda>u. badge u = field_data req ''badge'') (users (db st)) = None"
      by (rule find_None_if_not_ex)
    show "fst (register g sp sn req st) = Redirect (Url_for (Login None)) \<and>
      users (db (snd (register g sp sn req st))) = users (db st) @
        [\<lparr>user_id = next_user_id (users (db st)),
          email = field_data req ''email'',
          password = g sp (field_data req ''password''),
          name = field_data req ''name'',
          badge = field_data req ''badge'',
          pin = g sn (field_data req ''pin''),
          category = Some (determine_user_category (Some (field_data req ''badge''))),
          company = (if field_data req ''company'' = [] then None
                     else Some (field_data req ''company''))\<rparr>] \<and>
      blog_posts (db (snd (register g sp sn req st))) = blog_posts (db st) \<and>
      comments (db (snd (register g sp sn req st))) = comments (db st) \<and>
      flashes (snd (register g sp sn req st)) = flashes st @
        [(''Registration successful! Please log in to continue.'', ''success'')]"
      unfolding register_fresh [OF v ne nb] by (simp add: new_user_def)
  qed
  show ?thesis
    by (rule conjI [OF unchanged conjI [OF email_taken conjI [OF badge_taken fresh]]])
qed

lemma valid_example:
  "RegisterForm_validate_on_submit
     \<lparr>req_method = POST, req_url = ''/register'', req_args = Map.empty,
      req_form = map_of [(''email'', ''a@b.c''), (''password'', ''pw''), (''name'', ''Ann''),
                         (''badge'', ''7001''), (''pin'', ''1234'')],
      csrf_valid = True\<rparr>"
  by (simp add: RegisterForm_validate_on_submit_def DataRequired_def isspace_def Length_max_def
      pin_validators_def Length_def Regexp_pin_def is_digit_def)

theorem C4_register_witness:
  "users (db (snd (register (@) ''s1'' ''s2''
     \<lparr>req_method = POST, req_url = ''/register'', req_args = Map.empty,
      req_form = map_of [(''email'', ''a@b.c''), (''password'', ''pw''), (''name'', ''Ann''),
                         (''badge'', ''7001''), (''pin'', ''1234'')],
      csrf_valid = True\<rparr>
     \<lparr>db = \<lparr>users = [], blog_posts = [], comments = []\<rparr>, current_user = None, flashes = []\<rparr>))) =
     [\<lparr>user_id = 1, email = ''a@b.c'', password = ''s1pw'', name = ''Ann'', badge = ''7001'',
       pin = ''s21234'', category = Some ''regular'', company = None\<rparr>] \<and>
   db (snd (register (@) ''s1'' ''s2''
     \<lparr>req_method = POST, req_url = ''/register'', req_args = Map.empty,
      req_form = map_of [(''email'', ''a@b.c''), (''password'', ''pw''), (''name'', ''Ann''),
                         (''badge'', ''7001''), (''pin'', ''1234'')],
      csrf_valid = True\<rparr>
     \<lparr>db = \<lparr>users = [\<lparr>user_id = 1, email = ''a@b.c'', password = ''h'', name = ''Al'',
              badge = ''1000'', pin = ''q'', category = Some ''executive'', company = None\<rparr>],
            blog_posts = [], comments = []\<rparr>, current_user = None, flashes = []\<rparr>)) =
     \<lparr>users = [\<lparr>user_id = 1, email = ''a@b.c'', password = ''h'', name = ''Al'',
              badge = ''1000'', pin = ''q'', category = Some ''executive'', company = None\<rparr>],
            blog_posts = [], comments = []\<rparr>"
  using valid_example
    C4_register [of "\<lparr>db = \<lparr>users = [], blog_posts = [], comments = []\<rparr>, current_user = None, flashes = []\<rparr>"
     "\<lparr>req_method = POST, req_url = ''/register'', req_args = Map.empty,
      req_form = map_of [(''email'', ''a@b.c''), (''password'', ''pw''), (''name'', ''Ann''),
                         (''badge'', ''7001''), (''pin'', ''1234'')],
      csrf_valid = True\<rparr>" "(@)" "''s1''" "''s2''"]
    C4_register [of "\<lparr>db = \<lparr>users = [\<lparr>user_id = 1, email = ''a@b.c'', password = ''h'', name = ''Al'',
              badge = ''1000'', pin = ''q'', category = Some ''executive'', company = None\<rparr>],
            blog_posts = [], comments = []\<rparr>, current_user = None, flashes = []\<rparr>"
     "\<lparr>req_method = POST, req_url = ''/register'', req_args = Map.empty,
      req_form = map_of [(''email'', ''a@b.c''), (''password'', ''pw''), (''name'', ''Ann''),
                         (''badge'', ''7001''), (''pin'', ''1234'')],
      csrf_valid = True\<rparr>" "(@)" "''s1''" "''s2''"]
  by (simp add: field_data_def next_user_id_def categories_def)

text \<open>
  C8. A registration that succeeds leaves the caller as it was: the new user is stored
  and is not the current user, and the answer is a redirect to the login page.
\<close>

theorem C8_register_not_logged_in:
  assumes "RegisterForm_validate_on_submit req"
    and "find (\<lambda>u. email u = field_data req ''email'') (users (db st)) = None"
    and "find (\<lambda>u. badge u = field_data req ''badge'') (users (db st)) = None"
  shows "current_user (snd (register g sp sn req st)) = current_user st \<and>
         fst (register g sp sn req st) = Redirect (Url_for (Login None)) \<and>
         length (users (db (snd (register g sp sn req st)))) = Suc (length (users (db st)))"
  unfolding register_fresh [OF assms] by simp

theorem C8_register_not_logged_in_witness:
  "current_user (snd (register (@) ''s1'' ''s2''
     \<lparr>req_method = POST, req_url = ''/register'', req_args = Map.empty,
      req_form = map_of [(''email'', ''a@b.c''), (''password'', ''pw''), (''name'', ''Ann''),
                         (''badge'', ''7001''), (''pin'', ''1234'')],
      csrf_valid = True\<rparr>
     \<lparr>db = \<lparr>users = [], blog_posts = [], comments = []\<rparr>, current_user = None, flashes = []\<rparr>)) =
   None"
  using C8_register_not_logged_in [OF valid_example, of
     "\<lparr>db = \<lparr>users = [], blog_posts = [], comments = []\<rparr>, current_user = None, flashes = []\<rparr>"
     "(@)" "''s1''" "''s2''"]
  by simp

section \<open>The PIN of the registration form\<close>

lemma is_digit_not_space: "is_digit c \<Longrightarrow> \<not> isspace c"
  by (auto simp add: is_digit_def isspace_def)

lemma DataRequired_digits:
  assumes "list_all is_digit (take k s)" and "0 < k" and "k \<le> length s"
  shows "DataRequired (Some s)"
proof -
  from assms obtain c cs where s: "s = c # cs" by (cases s) auto
  with assms have "is_digit c" by (cases k) auto
  then have "\<not> isspace c" by (rule is_digit_not_space)
  with s show ?thesis by (simp add: DataRequired_def)
qed

lemma Regexp_pin_Some:
  "Regexp_pin (Some s) =
     (\<exists>k. (k = 4 \<or> k = 5 \<or> k = 6) \<and> k \<le> length s \<and> list_all is_digit (take k s) \<and>
          (drop k s = [] \<or> drop k s = [CHR 0x0A]))"
  by (auto simp add: Regexp_pin_def)

lemma pin_validators_iff:
  "pin_validators (Some s) =
     ((list_all is_digit s \<and> 4 \<le> length s \<and> length s \<le> 6) \<or>
      (\<exists>t. s = t @ [CHR 0x0A] \<and> list_all is_digit t \<and> 4 \<le> length t \<and> length t \<le> 5))"
  (is "?L = (?A \<or> ?B)")
proof
  assume ?L
  then have len: "4 \<le> length s" "length s \<le> 6" and re: "Regexp_pin (Some s)"
    by (simp_all add: pin_validators_def Length_def Let_def)
  from re obtain k where k: "k = 4 \<or> k = 5 \<or> k = 6" "k \<le> length s"
    "list_all is_digit (take k s)" "drop k s = [] \<or> drop k s = [CHR 0x0A]"
    unfolding Regexp_pin_Some by blast
  from k(4) show "?A \<or> ?B"
  proof
    assume "drop k s = []"
    with k(2) have "take k s = s" by simp
    with k(3) len show ?thesis by simp
  next
    assume d: "drop k s = [CHR 0x0A]"
    have s: "s = take k s @ [CHR 0x0A]" using append_take_drop_id [of k s] d by simp
    have "length s = Suc k" using arg_cong [OF d, of length] k(2) by simp
    with k(1) len have "4 \<le> length (take k s) \<and> length (take k s) \<le> 5" using k(2) by auto
    with s k(3) have ?B by blast
    then show ?thesis ..
  qed
next
  assume "?A \<or> ?B"
  then show ?L
  proof
    assume a: ?A
    then have d: "list_all is_digit (take (length s) s)" by simp
    from a have pos: "0 < length s" by (cases s) auto
    have dr: "DataRequired (Some s)" by (rule DataRequired_digits [OF d pos]) simp
    from a have "Regexp_pin (Some s)" unfolding Regexp_pin_Some
      by (intro exI [of _ "length s"]) auto
    with dr a show ?L by (simp add: pin_validators_def Length_def Let_def)
  next
    assume ?B
    then obtain t where t: "s = t @ [CHR 0x0A]" "list_all is_digit t" "4 \<le> length t" "length t \<le> 5"
      by blast
    then have d: "list_all is_digit (take (length t) s)" and pos: "0 < length t"
      and le: "length t \<le> length s" by (cases t; simp)+
    have dr: "DataRequired (Some s)" by (rule DataRequired_digits [OF d pos le])
    from t have "Regexp_pin (Some s)" unfolding Regexp_pin_Some
      by (intro exI [of _ "length t"]) auto
    with dr t show ?L by (simp add: pin_validators_def Length_def Let_def)
  qed
qed

lemma pin_examples:
  "pin_validators (Some ''1234'') \<and> pin_validators (Some ''123456'') \<and>
   \<not> pin_validators (Some ''123'') \<and> \<not> pin_validators (Some ''1234567'') \<and>
   \<not> pin_validators (Some ''12a4'')"
  by (simp add: pin_validators_def DataRequired_def isspace_def Length_def Regexp_pin_def
      is_digit_def)

text \<open>
  C6, at the input where the code departs from it. The five characters \<open>1234\<close> and a
  newline are not four to six digits, yet the three validators of the pin field accept
  them, and the registration hashes and stores them as the PIN.
\<close>

theorem C6_pin_trailing_newline:
  "pin_validators (Some (''1234'' @ [CHR 0x0A])) \<and>
   \<not> list_all is_digit (''1234'' @ [CHR 0x0A]) \<and>
   map pin (users (db (snd (register g sp sn
     \<lparr>req_method = POST, req_url = ''/register'', req_args = Map.empty,
      req_form = map_of [(''email'', ''a@b.c''), (''password'', ''pw''), (''name'', ''Ann''),
                         (''badge'', ''7001''), (''pin'', ''1234'' @ [CHR 0x0A])],
      csrf_valid = True\<rparr>
     \<lparr>db = \<lparr>users = [], blog_posts = [], comments = []\<rparr>, current_user = None,
      flashes = []\<rparr>)))) = [g sn (''1234'' @ [CHR 0x0A])]"
  by (simp add: pin_validators_def DataRequired_def isspace_def Length_def Regexp_pin_def
      is_digit_def register_def RegisterForm_validate_on_submit_def Length_max_def
      field_data_def flash_def new_user_def)

section \<open>Login\<close>







section \<open>Deleting a user\<close>

text \<open>
  C9. An executive who asks the dashboard to delete the own account is redirected to the
  dashboard with the message \<open>You cannot delete your own account from the dashboard.\<close>,
  and the store is as it was.
\<close>

theorem C9_delete_own_account:
  assumes "current_user st = Some cu" and "category cu = Some ''executive''"
  shows "delete_user req (user_id cu) st =
           (Redirect (Url_for Admin_dashboard),
            st\<lparr>flashes := flashes st @
              [(''You cannot delete your own account from the dashboard.'', ''danger'')]\<rparr>) \<and>
         db (snd (delete_user req (user_id cu) st)) = db st"
  using assms by (simp add: delete_user_def roles_required_def delete_user_view_def flash_def)

theorem C9_delete_own_account_witness:
  "delete_user
     \<lparr>req_method = POST, req_url = ''/admin/delete_user/1'', req_args = Map.empty,
      req_form = Map.empty, csrf_valid = True\<rparr> 1
     \<lparr>db = \<lparr>users = [\<lparr>user_id = 1, email = ''x@b.c'', password = ''h'', name = ''Xe'',
              badge = ''1000'', pin = ''q'', category = Some ''executive'', company = None\<rparr>],
            blog_posts = [], comments = []\<rparr>,
      current_user = Some \<lparr>user_id = 1, email = ''x@b.c'', password = ''h'', name = ''Xe'',
              badge = ''1000'', pin = ''q'', category = Some ''executive'', company = None\<rparr>,
      flashes = []\<rparr> =
   (Redirect (Url_for Admin_dashboard),
     \<lparr>db = \<lparr>users = [\<lparr>user_id = 1, email = ''x@b.c'', password = ''h'', name = ''Xe'',
              badge = ''1000'', pin = ''q'', category = Some ''executive'', company = None\<rparr>],
            blog_posts = [], comments = []\<rparr>,
      current_user = Some \<lparr>user_id = 1, email = ''x@b.c'', password = ''h'', name = ''Xe'',
              badge = ''1000'', pin = ''q'', category = Some ''executive'', company = None\<rparr>,
      flashes = [(''You cannot delete your own account from the dashboard.'', ''danger'')]\<rparr>)"
  using C9_delete_own_account [of
     "\<lparr>db = \<lparr>users = [\<lparr>user_id = 1, email = ''x@b.c'', password = ''h'', name = ''Xe'',
              badge = ''1000'', pin = ''q'', category = Some ''executive'', company = None\<rparr>],
            blog_posts = [], comments = []\<rparr>,
      current_user = Some \<lparr>user_id = 1, email = ''x@b.c'', password = ''h'', name = ''Xe'',
              badge = ''1000'', pin = ''q'', category = Some ''executive'', company = None\<rparr>,
      flashes = []\<rparr>"
     "\<lparr>user_id = 1, email = ''x@b.c'', password = ''h'', name = ''Xe'',
              badge = ''1000'', pin = ''q'', category = Some ''executive'', company = None\<rparr>"
     "\<lparr>req_method = POST, req_url = ''/admin/delete_user/1'', req_args = Map.empty,
      req_form = Map.empty, csrf_valid = True\<rparr>"]
  by simp





end
